theory Spec2Isabelle
  imports Main "HOL-Library.Sublist"
begin

section \<open>The ONS API client (src/api/ons-client.ts)\<close>

text \<open>
  A shallow embedding of the class \<open>ONSApiClient\<close>. A rejected promise is the left
  summand of a sum, a resolved one the right summand. The remote service is a
  parameter: a function from a request and the state of the world to an outcome and the
  next state of the world, so that two requests of one call may be answered differently.
  JavaScript numbers that count things are integers here; strings are lists of
  characters. The operations only concatenate, compare and search strings, except for
  \<open>String.prototype.toLowerCase\<close>, which is a parameter of the search.
\<close>

subsection \<open>Data shapes\<close>

record link =
  href :: string

record titled_link =
  tl_href :: string
  tl_title :: string

record contact =
  email :: string
  contact_name :: string
  telephone :: string

record dataset_links =
  self_link :: link
  latest_version :: link
  editions :: link

record dimension_links =
  options_link :: link
  dim_self_link :: link

record ONSDimension =
  dim_id :: string
  dim_name :: string
  dim_label :: string
  dim_links :: dimension_links

record ONSDataset =
  id_ds :: string
  title :: string
  description :: string
  links :: dataset_links
  state :: string
  type_ds :: string
  uri :: string
  qmi :: "titled_link option"
  methodology :: "titled_link option"
  contacts :: "contact list option"
  dimensions :: "ONSDimension list option"

record ONSDatasetList =
  count :: int
  items :: "ONSDataset list"
  limit :: int
  offset :: int
  total_count :: int

subsection \<open>Errors and requests\<close>

text \<open>
  A value of a parsed response body. A number is given by the text JavaScript prints
  for it, so that zero, of either sign, is \<open>''0''\<close>. The fields of an object are
  its own properties, in order.
\<close>

datatype json =
    JNull
  | JBool bool
  | JNumber string
  | JString string
  | JArray "json list"
  | JObject "(string \<times> json) list"

text \<open>
  \<open>ToBoolean\<close> is the test that \<open>||\<close> applies to its left operand: null, false,
  zero, NaN and the empty string are falsy, every array and object is truthy.
\<close>

fun ToBoolean :: "json \<Rightarrow> bool" where
  "ToBoolean JNull = False"
| "ToBoolean (JBool b) = b"
| "ToBoolean (JNumber r) = (r \<noteq> ''0'' \<and> r \<noteq> ''NaN'')"
| "ToBoolean (JString s) = (s \<noteq> [])"
| "ToBoolean (JArray xs) = True"
| "ToBoolean (JObject kvs) = True"

text \<open>
  \<open>ToString\<close> is the conversion a template literal applies to a value, \<open>None\<close> when
  it throws a \<open>TypeError\<close>. An array is the texts of its elements joined by commas,
  with nothing for a null element. A parsed object holds no function: one with a
  property \<open>toString\<close> of its own cannot be converted, any other prints as
  \<open>[object Object]\<close>.
\<close>

fun ToString :: "json \<Rightarrow> string option" and array_join :: "json list \<Rightarrow> string option" where
  "ToString JNull = Some ''null''"
| "ToString (JBool b) = Some (if b then ''true'' else ''false'')"
| "ToString (JNumber r) = Some r"
| "ToString (JString s) = Some s"
| "ToString (JArray xs) = array_join xs"
| "ToString (JObject kvs) =
     (if ''toString'' \<in> set (map fst kvs) then None else Some ''[object Object]'')"
| "array_join [] = Some []"
| "array_join (x # xs) =
     (case (if x = JNull then Some [] else ToString x) of
        None \<Rightarrow> None
      | Some a \<Rightarrow>
          if xs = [] then Some a
          else (case array_join xs of None \<Rightarrow> None | Some r \<Rightarrow> Some (a @ '','' @ r)))"

text \<open>
  An error object as the code reads it: \<open>error.response\<close> (present on an error of the
  HTTP library when the server answered, with \<open>status\<close> and \<open>data.message\<close>, the
  property \<open>message\<close> of the body when the body is an object that has one) and
  \<open>error.message\<close>. A plain \<open>new Error(text)\<close> has a message and no response, and
  so has the \<open>TypeError\<close> of a failed conversion to a string.
\<close>

record http_response =
  status :: nat
  data_message :: "json option"

record js_error =
  response :: "http_response option"
  message :: string

definition new_Error :: "string \<Rightarrow> js_error" where
  "new_Error text = \<lparr>response = None, message = text\<rparr>"

definition new_TypeError :: js_error where
  "new_TypeError = \<lparr>response = None, message = ''Cannot convert object to primitive value''\<rparr>"

text \<open>A request: the URL given to \<open>get\<close> and the \<open>params\<close> of its configuration.\<close>

record request =
  req_url :: string
  req_params :: "(string \<times> int) list"

type_synonym ('c, 'd) http_get = "request \<Rightarrow> 'c \<Rightarrow> (js_error + 'd) \<times> 'c"

subsection \<open>Strings\<close>

definition digit_char :: "nat \<Rightarrow> char" where
  "digit_char d = ''0123456789'' ! (d mod 10)"

fun show_nat :: "nat \<Rightarrow> string" where
  "show_nat n = (if n < 10 then [digit_char n] else show_nat (n div 10) @ [digit_char (n mod 10)])"

declare show_nat.simps [simp del]

fun startsWith :: "string \<Rightarrow> string \<Rightarrow> bool" where
  "startsWith s [] = True"
| "startsWith [] (c # t) = False"
| "startsWith (a # s) (c # t) = (a = c \<and> startsWith s t)"

fun includes_str :: "string \<Rightarrow> string \<Rightarrow> bool" where
  "includes_str [] t = (t = [])"
| "includes_str (a # s) t = (startsWith (a # s) t \<or> includes_str s t)"


fun join :: "string \<Rightarrow> string list \<Rightarrow> string" where
  "join sep [] = []"
| "join sep [x] = x"
| "join sep (x # y # zs) = x @ sep @ join sep (y # zs)"

text \<open>
  \<open>xs.slice(0, end)\<close>: a negative \<open>end\<close> counts from the end of the array, and the
  bounds are clamped to the array.
\<close>

definition slice0 :: "'a list \<Rightarrow> int \<Rightarrow> 'a list" where
  "slice0 xs end = (if end < 0 then take (nat (int (length xs) + end)) xs else take (nat end) xs)"

subsection \<open>The response interceptor installed by the constructor\<close>

text \<open>
  \<open>data?.message || error.message\<close> is the message field when it is truthy and the
  text of the transport error otherwise; the template literal of each branch then
  converts what was chosen to a string, which can throw.
\<close>

definition interceptor :: "js_error \<Rightarrow> js_error" where
  "interceptor error =
     (case response error of
        Some resp \<Rightarrow>
          (let st = status resp;
               converted = (case data_message resp of
                              Some m \<Rightarrow> if ToBoolean m then ToString m else Some (message error)
                            | None \<Rightarrow> Some (message error))
           in case converted of
                None \<Rightarrow> new_TypeError
              | Some msg \<Rightarrow>
                  if st = 404 then new_Error (''ONS API: Resource not found - '' @ msg)
                  else if st = 400 then new_Error (''ONS API: Bad request - '' @ msg)
                  else if st = 429 then new_Error (''ONS API: Rate limit exceeded - '' @ msg)
                  else if st = 500 then new_Error (''ONS API: Server error - '' @ msg)
                  else new_Error (''ONS API: HTTP '' @ show_nat st @ '' - '' @ msg))
      | None \<Rightarrow> new_Error (''ONS API: Network error - '' @ message error))"

text \<open>
  The connection of one client: the requests issued so far, in order, and the state of
  the world behind the network. \<open>client_get\<close> is \<open>this.client.get\<close> of a constructed
  client: the request goes to the network, and a failure passes through the interceptor.
\<close>

record 's connection =
  issued :: "request list"
  world :: 's

definition client_get :: "('s, 'd) http_get \<Rightarrow> ('s connection, 'd) http_get" where
  "client_get net req c =
     (case net req (world c) of
        (Inr d, w) \<Rightarrow> (Inr d, \<lparr>issued = issued c @ [req], world = w\<rparr>)
      | (Inl e, w) \<Rightarrow> (Inl (interceptor e), \<lparr>issued = issued c @ [req], world = w\<rparr>))"

subsection \<open>Operations\<close>

text \<open>
  Each operation takes \<open>get\<close>, the \<open>get\<close> of its client, and the type of the response
  data is the one the source declares for it. The optional parameters of the source are
  given explicitly. The warning written to the console before a fallback is left out.
\<close>

definition listDatasets :: "('c, ONSDatasetList) http_get \<Rightarrow> int \<Rightarrow> int \<Rightarrow> 'c \<Rightarrow> (js_error + ONSDatasetList) \<times> 'c" where
  "listDatasets get lim off c =
     get \<lparr>req_url = ''/datasets'', req_params = [(''limit'', lim), (''offset'', off)]\<rparr> c"

definition getDataset :: "('c, ONSDataset) http_get \<Rightarrow> string \<Rightarrow> 'c \<Rightarrow> (js_error + ONSDataset) \<times> 'c" where
  "getDataset get datasetId c = get \<lparr>req_url = ''/datasets/'' @ datasetId, req_params = []\<rparr> c"

definition getLatestVersion :: "('c, 'd) http_get \<Rightarrow> string \<Rightarrow> string \<Rightarrow> 'c \<Rightarrow> (js_error + 'd) \<times> 'c" where
  "getLatestVersion get datasetId edition c =
     (case get \<lparr>req_url = ''/datasets/'' @ datasetId @ ''/editions/'' @ edition @ ''/versions/latest'',
                req_params = []\<rparr> c of
        (Inr d, c1) \<Rightarrow> (Inr d, c1)
      | (Inl error, c1) \<Rightarrow>
          if (case response error of Some resp \<Rightarrow> status resp = 500 | None \<Rightarrow> False)
          then get \<lparr>req_url = ''/datasets/'' @ datasetId @ ''/editions/'' @ edition @ ''/versions/6'',
                    req_params = []\<rparr> c1
          else (Inl error, c1))"

definition dimensionParams :: "(string \<times> string) list \<Rightarrow> string" where
  "dimensionParams dims = join ''&'' (map (\<lambda>(key, val). key @ ''='' @ val) dims)"

definition is500Error :: "js_error \<Rightarrow> bool" where
  "is500Error error =
     ((case response error of Some resp \<Rightarrow> status resp = 500 | None \<Rightarrow> False) \<or>
      (message error \<noteq> [] \<and> includes_str (message error) ''Server error''
         \<and> includes_str (message error) ''500''))"

text \<open>\<open>dims\<close> is \<open>Object.entries(dimensions)\<close>, the entries in the order the object lists them.\<close>

definition getObservations ::
    "('c, 'd) http_get \<Rightarrow> string \<Rightarrow> string \<Rightarrow> string \<Rightarrow> (string \<times> string) list \<Rightarrow> 'c \<Rightarrow> (js_error + 'd) \<times> 'c" where
  "getObservations get datasetId edition version dims c =
     (let dimParams = dimensionParams dims;
          url = ''/datasets/'' @ datasetId @ ''/editions/'' @ edition @ ''/versions/'' @ version
                  @ ''/observations?'' @ dimParams
      in case get \<lparr>req_url = url, req_params = []\<rparr> c of
           (Inr d, c1) \<Rightarrow> (Inr d, c1)
         | (Inl error, c1) \<Rightarrow>
             if version = ''latest'' \<and> is500Error error
             then (let fallbackUrl = ''/datasets/'' @ datasetId @ ''/editions/'' @ edition
                                       @ ''/versions/6/observations?'' @ dimParams
                   in case get \<lparr>req_url = fallbackUrl, req_params = []\<rparr> c1 of
                        (Inr d, c2) \<Rightarrow> (Inr d, c2)
                      | (Inl fallbackError, c2) \<Rightarrow> (Inl error, c2))
             else (Inl error, c1))"

text \<open>
  \<open>String.prototype.toLowerCase\<close> belongs to the language: it maps every cased letter
  of Unicode, and some by their context. The search takes it as the parameter
  \<open>toLowerCase\<close>, and what is proved of the search holds for every function in its
  place.
\<close>

definition matches :: "(string \<Rightarrow> string) \<Rightarrow> string \<Rightarrow> ONSDataset \<Rightarrow> bool" where
  "matches toLowerCase searchTerm dataset =
     (includes_str (toLowerCase (title dataset)) searchTerm \<or>
      includes_str (toLowerCase (description dataset)) searchTerm \<or>
      includes_str (toLowerCase (id_ds dataset)) searchTerm)"

definition searchDatasets ::
    "(string \<Rightarrow> string) \<Rightarrow> ('c, ONSDatasetList) http_get \<Rightarrow> string \<Rightarrow> int \<Rightarrow> 'c \<Rightarrow> (js_error + ONSDatasetList) \<times> 'c" where
  "searchDatasets toLowerCase get query lim c =
     (case listDatasets get 100 0 c of
        (Inl e, c1) \<Rightarrow> (Inl e, c1)
      | (Inr allDatasets, c1) \<Rightarrow>
          (let searchTerm = toLowerCase query;
               filteredItems = slice0 (filter (matches toLowerCase searchTerm) (items allDatasets)) lim
           in (Inr \<lparr>count = int (length filteredItems), items = filteredItems, limit = lim,
                     offset = 0, total_count = int (length filteredItems)\<rparr>, c1)))"

definition getDatasetDimensions :: "('c, ONSDataset) http_get \<Rightarrow> string \<Rightarrow> 'c \<Rightarrow> (js_error + ONSDimension list) \<times> 'c" where
  "getDatasetDimensions get datasetId c =
     (case getDataset get datasetId c of
        (Inl e, c1) \<Rightarrow> (Inl e, c1)
      | (Inr dataset, c1) \<Rightarrow>
          (Inr (case dimensions dataset of Some ds \<Rightarrow> ds | None \<Rightarrow> []), c1))"

definition healthCheck :: "('c, 'd) http_get \<Rightarrow> 'c \<Rightarrow> (js_error + bool) \<times> 'c" where
  "healthCheck get c =
     (case get \<lparr>req_url = ''/datasets?limit=1'', req_params = []\<rparr> c of
        (Inr d, c1) \<Rightarrow> (Inr True, c1)
      | (Inl e, c1) \<Rightarrow> (Inr False, c1))"

subsection \<open>The failure taxonomy of the specification\<close>

text \<open>
  The specification's words for what the interceptor delivers: a failure has a kind,
  fixed by the HTTP status (or by the absence of a response), a message, and the status
  it came from. The code has no such type: it throws an \<open>Error\<close> whose text starts
  with a label for the kind. \<open>thrown\<close> is the error object that stands for a
  normalized failure.
\<close>

datatype failure_kind = NotFound | BadRequest | RateLimited | ServerError | UnknownHttp | NetworkError

record NormalizedFailure =
  kind :: failure_kind
  failure_message :: string
  origin_status :: "nat option"

definition kind_of_status :: "nat option \<Rightarrow> failure_kind" where
  "kind_of_status st =
     (case st of
        None \<Rightarrow> NetworkError
      | Some n \<Rightarrow>
          if n = 404 then NotFound
          else if n = 400 then BadRequest
          else if n = 429 then RateLimited
          else if n = 500 then ServerError
          else UnknownHttp)"

definition kind_label :: "failure_kind \<Rightarrow> nat option \<Rightarrow> string" where
  "kind_label k st =
     (case k of
        NotFound \<Rightarrow> ''Resource not found''
      | BadRequest \<Rightarrow> ''Bad request''
      | RateLimited \<Rightarrow> ''Rate limit exceeded''
      | ServerError \<Rightarrow> ''Server error''
      | UnknownHttp \<Rightarrow> ''HTTP '' @ (case st of Some n \<Rightarrow> show_nat n | None \<Rightarrow> [])
      | NetworkError \<Rightarrow> ''Network error'')"

definition thrown :: "NormalizedFailure \<Rightarrow> js_error" where
  "thrown f = new_Error (''ONS API: '' @ kind_label (kind f) (origin_status f) @ '' - '' @ failure_message f)"

text \<open>
  The message as the specification words it (the server's message field, as a string,
  when present, else the text of the transport error), and the message with the field
  also required to be truthy. Either is \<open>None\<close> when the field chosen has no
  conversion to a string. \<open>normalized msg error\<close> is the failure with message
  \<open>msg\<close> and the kind and status of \<open>error\<close>.
\<close>

definition message_when_present :: "js_error \<Rightarrow> string option" where
  "message_when_present error =
     (case response error of
        Some resp \<Rightarrow> (case data_message resp of Some m \<Rightarrow> ToString m | None \<Rightarrow> Some (message error))
      | None \<Rightarrow> Some (message error))"

definition message_when_truthy :: "js_error \<Rightarrow> string option" where
  "message_when_truthy error =
     (case response error of
        Some resp \<Rightarrow>
          (case data_message resp of
             Some m \<Rightarrow> if ToBoolean m then ToString m else Some (message error)
           | None \<Rightarrow> Some (message error))
      | None \<Rightarrow> Some (message error))"

definition normalized :: "string \<Rightarrow> js_error \<Rightarrow> NormalizedFailure" where
  "normalized msg error =
     \<lparr>kind = kind_of_status (map_option status (response error)),
      failure_message = msg,
      origin_status = map_option status (response error)\<rparr>"

text \<open>
  The invariant the specification gives for a page of datasets, and its notion of a
  match: the query, in lower case, occurs in the text, in lower case, as a contiguous
  run of characters.
\<close>

definition DatasetPage_invariant :: "ONSDatasetList \<Rightarrow> bool" where
  "DatasetPage_invariant p =
     (int (length (items p)) \<le> limit p \<and> int (length (items p)) \<le> count p \<and> count p \<le> total_count p)"

definition contains_ci :: "(string \<Rightarrow> string) \<Rightarrow> string \<Rightarrow> string \<Rightarrow> bool" where
  "contains_ci toLowerCase text query = sublist (toLowerCase query) (toLowerCase text)"

definition dataset_matches :: "(string \<Rightarrow> string) \<Rightarrow> string \<Rightarrow> ONSDataset \<Rightarrow> bool" where
  "dataset_matches toLowerCase query d =
     (contains_ci toLowerCase (title d) query \<or> contains_ci toLowerCase (description d) query
        \<or> contains_ci toLowerCase (id_ds d) query)"

subsection \<open>Sample servers and data\<close>

text \<open>
  A server that answers by URL from a table and has no state; a URL it does not know
  gets no response at all. \<open>axios_error\<close> is the error the HTTP library raises for a
  response with a failing status; without a message field in the body its text is the
  library's own. \<open>toLowerCase_ascii\<close> is \<open>String.prototype.toLowerCase\<close> on
  strings of ASCII characters, which the sample data are.
\<close>

definition toLowerCase_char :: "char \<Rightarrow> char" where
  "toLowerCase_char c =
     (case map_of (zip ''ABCDEFGHIJKLMNOPQRSTUVWXYZ'' ''abcdefghijklmnopqrstuvwxyz'') c of
        Some l \<Rightarrow> l
      | None \<Rightarrow> c)"

definition toLowerCase_ascii :: "string \<Rightarrow> string" where
  "toLowerCase_ascii s = map toLowerCase_char s"

definition served :: "(string \<times> (js_error + 'd)) list \<Rightarrow> (unit, 'd) http_get" where
  "served table req w =
     (case map_of table (req_url req) of
        Some outcome \<Rightarrow> (outcome, w)
      | None \<Rightarrow> (Inl \<lparr>response = None, message = ''Network Error''\<rparr>, w))"

definition axios_error :: "nat \<Rightarrow> json option \<Rightarrow> js_error" where
  "axios_error st body_message =
     \<lparr>response = Some \<lparr>status = st, data_message = body_message\<rparr>,
      message = ''Request failed with status code '' @ show_nat st\<rparr>"

definition fresh :: "unit connection" where
  "fresh = \<lparr>issued = [], world = ()\<rparr>"

definition sample_dataset :: "string \<Rightarrow> string \<Rightarrow> string \<Rightarrow> ONSDimension list option \<Rightarrow> ONSDataset" where
  "sample_dataset i t d dims =
     \<lparr>id_ds = i, title = t, description = d,
      links = \<lparr>self_link = \<lparr>href = ''/datasets/'' @ i\<rparr>,
               latest_version = \<lparr>href = ''/datasets/'' @ i @ ''/editions/time-series/versions/6''\<rparr>,
               editions = \<lparr>href = ''/datasets/'' @ i @ ''/editions''\<rparr>\<rparr>,
      state = ''published'', type_ds = ''filterable'', uri = ''/datasets/'' @ i,
      qmi = None, methodology = None, contacts = None, dimensions = dims\<rparr>"

definition sample_dimension :: "string \<Rightarrow> ONSDimension" where
  "sample_dimension i =
     \<lparr>dim_id = i, dim_name = i, dim_label = i,
      dim_links = \<lparr>options_link = \<lparr>href = ''/dimensions/'' @ i @ ''/options''\<rparr>,
                   dim_self_link = \<lparr>href = ''/dimensions/'' @ i\<rparr>\<rparr>\<rparr>"

definition sample_page :: ONSDatasetList where
  "sample_page =
     \<lparr>count = 3,
      items = [sample_dataset ''cpih01'' ''CPI Index'' ''Consumer prices'' None,
               sample_dataset ''trade'' ''Trade Balance'' ''UK trade in goods'' None,
               sample_dataset ''regional-gdp'' ''Regional GDP'' ''Output and trade by region'' None],
      limit = 100, offset = 0, total_count = 300\<rparr>"

definition list_request :: request where
  "list_request = \<lparr>req_url = ''/datasets'', req_params = [(''limit'', 100), (''offset'', 0)]\<rparr>"

section \<open>Properties\<close>

lemma includes_str_sublist: "includes_str s t = sublist t s"
proof (induction s)
  case Nil
  show ?case by simp
next
  case (Cons a s)
  have sw: "startsWith u t = prefix t u" for u
    by (induction u t rule: startsWith.induct) auto
  show ?case using Cons by (simp add: sw sublist_Cons_right)
qed

subsection \<open>The interceptor\<close>

lemma interceptor_response: "response (interceptor error) = None"
  by (simp add: interceptor_def new_Error_def new_TypeError_def Let_def split: option.splits)

lemma client_get_Inr:
  "net req (world c) = (Inr d, w) \<Longrightarrow>
   client_get net req c = (Inr d, \<lparr>issued = issued c @ [req], world = w\<rparr>)"
  by (simp add: client_get_def)

lemma client_get_Inl:
  "net req (world c) = (Inl e, w) \<Longrightarrow>
   client_get net req c = (Inl (interceptor e), \<lparr>issued = issued c @ [req], world = w\<rparr>)"
  by (simp add: client_get_def)

lemma client_get_outcome:
  obtains (ok) d w where "net req (world c) = (Inr d, w)"
  | (failed) e w where "net req (world c) = (Inl e, w)"
  by (cases "net req (world c)") (metis sum.exhaust_sel)

text \<open>
  C4, as amended. Whatever error the transport raises, when the message chosen has a
  conversion to a string, what the interceptor throws is the error object of a
  normalized failure: its kind is fixed by the status (404 NotFound, 400 BadRequest,
  429 RateLimited, 500 ServerError, every other status UnknownHttp, no response
  NetworkError), and its message is the message field of the response body, as a
  string, when that field is present and truthy (not null, false, zero or the empty
  string), else the text of the transport error.
\<close>

theorem interceptor_thrown:
  "message_when_truthy error = Some msg \<Longrightarrow> interceptor error = thrown (normalized msg error)"
  by (auto simp add: interceptor_def thrown_def normalized_def message_when_truthy_def kind_of_status_def
      kind_label_def Let_def split: option.splits if_splits)

text \<open>The kind can be read back from the error thrown: the labels tell the kinds apart.\<close>

lemma thrown_kind_determined: "thrown f = thrown g \<Longrightarrow> kind f = kind g"
  by (cases "kind f"; cases "kind g") (simp_all add: thrown_def new_Error_def kind_label_def)

text \<open>
  A truthy message field without conversion to a string, an object with a property
  \<open>toString\<close> or an array that holds one, makes the interceptor throw the
  \<open>TypeError\<close> of the conversion in place of a normalized failure.
\<close>

lemma interceptor_TypeError:
  "response error = Some resp \<Longrightarrow> message_when_truthy error = None \<Longrightarrow> interceptor error = new_TypeError"
  by (simp add: interceptor_def message_when_truthy_def Let_def split: option.splits if_splits)

lemma interceptor_TypeError_example:
  "interceptor (axios_error 500 (Some (JObject [(''toString'', JNull)]))) = new_TypeError"
  by (simp add: interceptor_def axios_error_def)

text \<open>
  Message fields that are not strings: false and null give way to the text of the
  transport error, a number, an array and a plain object are printed.
\<close>

lemma ToString_examples:
  "ToString (JArray [JNumber ''1'', JNull, JArray [JString ''a'', JBool True]]) = Some ''1,,a,true''"
  "ToString (JArray []) = Some []"
  "ToString (JObject [(''code'', JNumber ''7'')]) = Some ''[object Object]''"
  "ToString (JArray [JObject [(''toString'', JString ''x'')]]) = None"
  by simp_all

lemma interceptor_other_fields:
  "interceptor (axios_error 500 (Some (JBool False))) =
     new_Error ''ONS API: Server error - Request failed with status code 500''"
  "interceptor (axios_error 500 (Some JNull)) =
     new_Error ''ONS API: Server error - Request failed with status code 500''"
  "interceptor (axios_error 500 (Some (JNumber ''42''))) = new_Error ''ONS API: Server error - 42''"
  "interceptor (axios_error 500 (Some (JArray [JString ''a'', JString ''b'']))) =
     new_Error ''ONS API: Server error - a,b''"
  "interceptor (axios_error 500 (Some (JObject [(''code'', JNumber ''7'')]))) =
     new_Error ''ONS API: Server error - [object Object]''"
  by (simp_all add: interceptor_def axios_error_def show_nat.simps digit_char_def)

text \<open>C4 at a 404 whose body carries a message.\<close>

theorem interceptor_thrown_witness:
  "interceptor (axios_error 404 (Some (JString ''dataset not found''))) =
     \<lparr>response = None, message = ''ONS API: Resource not found - dataset not found''\<rparr>"
proof -
  have "message_when_truthy (axios_error 404 (Some (JString ''dataset not found''))) = Some ''dataset not found''"
    by (simp add: message_when_truthy_def axios_error_def)
  from interceptor_thrown [OF this] show ?thesis
    by (simp add: thrown_def normalized_def kind_of_status_def kind_label_def axios_error_def new_Error_def)
qed

text \<open>
  C4 as it is worded fails when the body of a 500 carries a falsy message field, the
  empty string or the number zero: the field is present, the specification's message
  is its text, and the message thrown is the text of the transport error
  (\<open>data?.message || error.message\<close> passes over a falsy field).
\<close>

theorem interceptor_empty_message_field:
  "message_when_present (axios_error 500 (Some (JString []))) = Some []
   \<and> interceptor (axios_error 500 (Some (JString []))) \<noteq>
       thrown (normalized [] (axios_error 500 (Some (JString []))))
   \<and> message_when_present (axios_error 500 (Some (JNumber ''0''))) = Some ''0''
   \<and> interceptor (axios_error 500 (Some (JNumber ''0''))) \<noteq>
       thrown (normalized ''0'' (axios_error 500 (Some (JNumber ''0''))))"
  by (simp add: interceptor_def thrown_def normalized_def message_when_present_def kind_of_status_def
      kind_label_def axios_error_def new_Error_def show_nat.simps digit_char_def)

subsection \<open>getLatestVersion\<close>

text \<open>
  The error that reaches the \<open>catch\<close> of \<open>getLatestVersion\<close> comes out of the
  interceptor and has no \<open>response\<close>, so the test \<open>error.response?.status === 500\<close>
  is never true on a constructed client: the call is its first request and nothing
  more.
\<close>

lemma getLatestVersion_client_get:
  "getLatestVersion (client_get net) datasetId edition c =
     client_get net \<lparr>req_url = ''/datasets/'' @ datasetId @ ''/editions/'' @ edition @ ''/versions/latest'',
                     req_params = []\<rparr> c"
proof (cases rule: client_get_outcome [of net "\<lparr>req_url = ''/datasets/'' @ datasetId @ ''/editions/'' @ edition @ ''/versions/latest'', req_params = []\<rparr>" c])
  case (ok d w)
  then show ?thesis by (simp add: getLatestVersion_def client_get_Inr)
next
  case (failed e w)
  then show ?thesis by (simp add: getLatestVersion_def client_get_Inl interceptor_response)
qed

text \<open>
  With a \<open>get\<close> whose errors keep their response (no interceptor), the fallback of
  \<open>getLatestVersion\<close> is reached, and its failure is the one returned: the second
  request is not inside a \<open>try\<close>.
\<close>

lemma getLatestVersion_fallback_failure:
  assumes "get \<lparr>req_url = ''/datasets/'' @ datasetId @ ''/editions/'' @ edition @ ''/versions/latest'', req_params = []\<rparr> c = (Inl e, c1)"
    and "response e = Some resp" and "status resp = 500"
    and "get \<lparr>req_url = ''/datasets/'' @ datasetId @ ''/editions/'' @ edition @ ''/versions/6'', req_params = []\<rparr> c1 = (Inl e2, c2)"
  shows "getLatestVersion get datasetId edition c = (Inl e2, c2)"
  using assms by (simp add: getLatestVersion_def)

text \<open>
  C1 fails on the code. The server answers 500 for version \<open>latest\<close> of cpih01 and
  would answer version \<open>6\<close>: the client issues the one request for \<open>latest\<close> and
  rejects with the server error; no request for version \<open>6\<close> is made.
\<close>

theorem getLatestVersion_500_not_retried:
  "getLatestVersion
     (client_get (served [(''/datasets/cpih01/editions/time-series/versions/latest'', Inl (axios_error 500 None)),
                          (''/datasets/cpih01/editions/time-series/versions/6'', Inr ''version 6'')]))
     ''cpih01'' ''time-series'' fresh
   = (Inl \<lparr>response = None, message = ''ONS API: Server error - Request failed with status code 500''\<rparr>,
      \<lparr>issued = [\<lparr>req_url = ''/datasets/cpih01/editions/time-series/versions/latest'', req_params = []\<rparr>],
       world = ()\<rparr>)"
  by (simp add: getLatestVersion_def client_get_def served_def fresh_def axios_error_def
      interceptor_def new_Error_def show_nat.simps digit_char_def)

subsection \<open>getObservations\<close>

text \<open>
  What \<open>getObservations\<close> takes for a 500 is decided on the text of the error thrown.
  A 500 without message field in the body is recognised when the text of the transport
  error names the status, as the text of the HTTP library does.
\<close>

lemma includes_str_append_left: "includes_str m t \<Longrightarrow> includes_str (p @ m) t"
  by (induction p) simp_all

lemma is500Error_status_500:
  assumes "response e = Some resp" and "status resp = 500" and "data_message resp = None"
    and "includes_str (message e) ''500''"
  shows "is500Error (interceptor e)"
proof -
  have thrown_text: "message (interceptor e) = ''ONS API: Server error - '' @ message e"
    using assms(1-3) by (simp add: interceptor_def new_Error_def)
  have nonempty: "message (interceptor e) \<noteq> []"
    by (simp add: thrown_text)
  have label: "includes_str (message (interceptor e)) ''Server error''"
    by (simp add: thrown_text)
  have code: "includes_str (message (interceptor e)) ''500''"
    unfolding thrown_text using assms(4) by (rule includes_str_append_left)
  show ?thesis
    unfolding is500Error_def using nonempty label code by blast
qed

text \<open>
  C2 fails on the code. The server answers 500 for version \<open>latest\<close> with a message
  field in the body and would answer version \<open>6\<close>. The text thrown by the
  interceptor then holds \<open>Server error\<close> and not \<open>500\<close>, the test for a 500 is false,
  and the call rejects after its first request.
\<close>

theorem getObservations_500_with_message_not_retried:
  "getObservations
     (client_get (served [(''/datasets/cpih01/editions/time-series/versions/latest/observations?time=*&geography=K02000001'',
                             Inl (axios_error 500 (Some (JString ''internal error'')))),
                          (''/datasets/cpih01/editions/time-series/versions/6/observations?time=*&geography=K02000001'',
                             Inr ''version 6'')]))
     ''cpih01'' ''time-series'' ''latest'' [(''time'', ''*''), (''geography'', ''K02000001'')] fresh
   = (Inl \<lparr>response = None, message = ''ONS API: Server error - internal error''\<rparr>,
      \<lparr>issued = [\<lparr>req_url = ''/datasets/cpih01/editions/time-series/versions/latest/observations?time=*&geography=K02000001'',
                   req_params = []\<rparr>],
       world = ()\<rparr>)"
  by (simp add: getObservations_def Let_def dimensionParams_def is500Error_def client_get_def served_def
      fresh_def axios_error_def interceptor_def new_Error_def)

text \<open>
  C3 fails on the code. The server answers 404 for version \<open>latest\<close> with the message
  \<open>Server error 500\<close>. The text thrown holds both \<open>Server error\<close> and \<open>500\<close>, so
  the failure is taken for a 500: a second request goes to version \<open>6\<close> and its data
  is returned.
\<close>

theorem getObservations_404_retried:
  "getObservations
     (client_get (served [(''/datasets/cpih01/editions/time-series/versions/latest/observations?time=*&geography=K02000001'',
                             Inl (axios_error 404 (Some (JString ''Server error 500'')))),
                          (''/datasets/cpih01/editions/time-series/versions/6/observations?time=*&geography=K02000001'',
                             Inr ''version 6'')]))
     ''cpih01'' ''time-series'' ''latest'' [(''time'', ''*''), (''geography'', ''K02000001'')] fresh
   = (Inr ''version 6'',
      \<lparr>issued = [\<lparr>req_url = ''/datasets/cpih01/editions/time-series/versions/latest/observations?time=*&geography=K02000001'',
                   req_params = []\<rparr>,
                 \<lparr>req_url = ''/datasets/cpih01/editions/time-series/versions/6/observations?time=*&geography=K02000001'',
                   req_params = []\<rparr>],
       world = ()\<rparr>)"
  by (simp add: getObservations_def Let_def dimensionParams_def is500Error_def client_get_def served_def
      fresh_def axios_error_def interceptor_def new_Error_def)

text \<open>
  The three ways a call of \<open>getObservations\<close> on a constructed client can go: the
  primary request succeeds; it fails and no fallback is due; it fails with what the code
  takes for a 500 on \<open>latest\<close>, and the fallback decides, a failure of the fallback
  giving back the failure of the primary request.
\<close>

lemma getObservations_success:
  assumes "net \<lparr>req_url = ''/datasets/'' @ datasetId @ ''/editions/'' @ edition @ ''/versions/'' @ version
                    @ ''/observations?'' @ dimensionParams dims, req_params = []\<rparr> (world c) = (Inr d, w)"
  shows "getObservations (client_get net) datasetId edition version dims c =
           (Inr d, \<lparr>issued = issued c @ [\<lparr>req_url = ''/datasets/'' @ datasetId @ ''/editions/'' @ edition
                      @ ''/versions/'' @ version @ ''/observations?'' @ dimensionParams dims, req_params = []\<rparr>],
                    world = w\<rparr>)"
  using assms by (simp add: getObservations_def Let_def client_get_def)

lemma getObservations_no_fallback:
  assumes "net \<lparr>req_url = ''/datasets/'' @ datasetId @ ''/editions/'' @ edition @ ''/versions/'' @ version
                    @ ''/observations?'' @ dimensionParams dims, req_params = []\<rparr> (world c) = (Inl e, w)"
    and "version \<noteq> ''latest'' \<or> \<not> is500Error (interceptor e)"
  shows "getObservations (client_get net) datasetId edition version dims c =
           (Inl (interceptor e),
            \<lparr>issued = issued c @ [\<lparr>req_url = ''/datasets/'' @ datasetId @ ''/editions/'' @ edition
                      @ ''/versions/'' @ version @ ''/observations?'' @ dimensionParams dims, req_params = []\<rparr>],
             world = w\<rparr>)"
  using assms by (auto simp add: getObservations_def Let_def client_get_def)

lemma getObservations_fallback:
  assumes "net \<lparr>req_url = ''/datasets/'' @ datasetId @ ''/editions/'' @ edition
                    @ ''/versions/latest/observations?'' @ dimensionParams dims, req_params = []\<rparr> (world c) = (Inl e, w)"
    and "is500Error (interceptor e)"
    and "net \<lparr>req_url = ''/datasets/'' @ datasetId @ ''/editions/'' @ edition
                    @ ''/versions/6/observations?'' @ dimensionParams dims, req_params = []\<rparr> w = (r, w2)"
  shows "getObservations (client_get net) datasetId edition ''latest'' dims c =
           ((case r of Inr d \<Rightarrow> Inr d | Inl e2 \<Rightarrow> Inl (interceptor e)),
            \<lparr>issued = issued c @
                 [\<lparr>req_url = ''/datasets/'' @ datasetId @ ''/editions/'' @ edition
                      @ ''/versions/latest/observations?'' @ dimensionParams dims, req_params = []\<rparr>,
                  \<lparr>req_url = ''/datasets/'' @ datasetId @ ''/editions/'' @ edition
                      @ ''/versions/6/observations?'' @ dimensionParams dims, req_params = []\<rparr>],
             world = w2\<rparr>)"
  using assms by (cases r) (simp_all add: getObservations_def Let_def client_get_def)

lemma is500Error_without_message_field:
  "is500Error (interceptor (axios_error 500 None))"
  by (simp add: is500Error_def interceptor_def axios_error_def new_Error_def show_nat.simps digit_char_def)

text \<open>
  C5. When a call of \<open>getObservations\<close> with version \<open>latest\<close> takes the fallback
  (its primary request fails and the failure is taken for a 500), it issues exactly two
  requests: the primary one, and one whose URL differs only in the version segment,
  \<open>6\<close> for \<open>latest\<close>. The dataset id, the edition and the serialized dimension
  parameters are the same text in both.
\<close>

theorem getObservations_fallback_request:
  assumes "net \<lparr>req_url = (''/datasets/'' @ datasetId @ ''/editions/'' @ edition @ ''/versions/'') @ ''latest''
                    @ (''/observations?'' @ dimensionParams dims), req_params = []\<rparr> (world c) = (Inl e, w)"
    and "is500Error (interceptor e)"
  shows "issued (snd (getObservations (client_get net) datasetId edition ''latest'' dims c)) =
           issued c @
             [\<lparr>req_url = (''/datasets/'' @ datasetId @ ''/editions/'' @ edition @ ''/versions/'') @ ''latest''
                           @ (''/observations?'' @ dimensionParams dims), req_params = []\<rparr>,
              \<lparr>req_url = (''/datasets/'' @ datasetId @ ''/editions/'' @ edition @ ''/versions/'') @ ''6''
                           @ (''/observations?'' @ dimensionParams dims), req_params = []\<rparr>]"
proof -
  obtain r w2 where "net \<lparr>req_url = ''/datasets/'' @ datasetId @ ''/editions/'' @ edition
                    @ ''/versions/6/observations?'' @ dimensionParams dims, req_params = []\<rparr> w = (r, w2)"
    by (cases "net \<lparr>req_url = ''/datasets/'' @ datasetId @ ''/editions/'' @ edition
                    @ ''/versions/6/observations?'' @ dimensionParams dims, req_params = []\<rparr> w") blast
  with assms show ?thesis
    using getObservations_fallback [of net datasetId edition dims c e w r w2] by simp
qed

text \<open>C5 at a 500 without message field on cpih01, with two dimension selections.\<close>

theorem getObservations_fallback_request_witness:
  "issued (snd (getObservations
     (client_get (served [(''/datasets/cpih01/editions/time-series/versions/latest/observations?time=*&geography=K02000001'',
                             Inl (axios_error 500 None)),
                          (''/datasets/cpih01/editions/time-series/versions/6/observations?time=*&geography=K02000001'',
                             Inr ''version 6'')]))
     ''cpih01'' ''time-series'' ''latest'' [(''time'', ''*''), (''geography'', ''K02000001'')] fresh))
   = [\<lparr>req_url = ''/datasets/cpih01/editions/time-series/versions/latest/observations?time=*&geography=K02000001'',
       req_params = []\<rparr>,
      \<lparr>req_url = ''/datasets/cpih01/editions/time-series/versions/6/observations?time=*&geography=K02000001'',
       req_params = []\<rparr>]"
  using getObservations_fallback_request
    [of "served [(''/datasets/cpih01/editions/time-series/versions/latest/observations?time=*&geography=K02000001'',
                             Inl (axios_error 500 None)),
                          (''/datasets/cpih01/editions/time-series/versions/6/observations?time=*&geography=K02000001'',
                             Inr ''version 6'')]"
        "''cpih01''" "''time-series''" "[(''time'', ''*''), (''geography'', ''K02000001'')]" fresh
        "axios_error 500 None" "()"]
    is500Error_without_message_field
  by (simp add: served_def fresh_def dimensionParams_def)

subsection \<open>searchDatasets\<close>

text \<open>
  The filter of the code, \<open>includes\<close> on lower-cased strings, is the specification's
  match, whatever \<open>toLowerCase\<close> is.
\<close>

lemma matches_dataset_matches: "matches lower (lower query) d = dataset_matches lower query d"
  by (simp add: matches_def dataset_matches_def contains_ci_def includes_str_sublist)

lemma searchDatasets_Inr:
  assumes "net list_request (world c) = (Inr page, w)"
  shows "searchDatasets lower (client_get net) query lim c =
           (Inr \<lparr>count = int (length (slice0 (filter (dataset_matches lower query) (items page)) lim)),
                 items = slice0 (filter (dataset_matches lower query) (items page)) lim,
                 limit = lim, offset = 0,
                 total_count = int (length (slice0 (filter (dataset_matches lower query) (items page)) lim))\<rparr>,
            \<lparr>issued = issued c @ [list_request], world = w\<rparr>)"
proof -
  have "matches lower (lower query) = dataset_matches lower query"
    by (rule ext) (rule matches_dataset_matches)
  with assms show ?thesis
    by (simp add: searchDatasets_def listDatasets_def client_get_def Let_def list_request_def)
qed

lemma searchDatasets_Inl:
  assumes "net list_request (world c) = (Inl e, w)"
  shows "searchDatasets lower (client_get net) query lim c =
           (Inl (interceptor e), \<lparr>issued = issued c @ [list_request], world = w\<rparr>)"
  using assms by (simp add: searchDatasets_def listDatasets_def client_get_def list_request_def)

lemma searchDatasets_shape:
  assumes "searchDatasets lower (client_get net) query lim c = (Inr r, c')"
  obtains page :: ONSDatasetList where "items r = slice0 (filter (dataset_matches lower query) (items page)) lim"
    and "limit r = lim" and "offset r = 0"
    and "count r = int (length (items r))" and "total_count r = int (length (items r))"
proof (cases rule: client_get_outcome [of net list_request c])
  case (ok page w)
  from searchDatasets_Inr [of net c page w lower query lim] ok assms
  have "r = \<lparr>count = int (length (slice0 (filter (dataset_matches lower query) (items page)) lim)),
                 items = slice0 (filter (dataset_matches lower query) (items page)) lim,
                 limit = lim, offset = 0,
                 total_count = int (length (slice0 (filter (dataset_matches lower query) (items page)) lim))\<rparr>"
    by simp
  then show ?thesis using that [of page] by simp
next
  case (failed e w)
  from searchDatasets_Inl [of net c e w lower query lim] failed assms show ?thesis by simp
qed

lemma slice0_nonneg: "0 \<le> lim \<Longrightarrow> slice0 xs lim = take (nat lim) xs"
  by (simp add: slice0_def)

lemma length_slice0_le: "0 \<le> lim \<Longrightarrow> int (length (slice0 xs lim)) \<le> lim"
  by (simp add: slice0_def)



text \<open>
  C6, as amended. When the list request (limit 100, offset 0) succeeds and the
  requested limit is not negative, \<open>searchDatasets\<close> resolves, after that one
  request, with exactly the datasets of the fetched page whose title, description or id
  contains the query as a case-insensitive substring (the text in lower case includes
  the query in lower case), in the order of the page, cut to the first \<open>lim\<close> of
  them; their number is at most the limit. This holds for every \<open>toLowerCase\<close>.
\<close>

theorem searchDatasets_result:
  assumes "net list_request (world c) = (Inr page, w)" and "0 \<le> lim"
  shows "\<exists>r. searchDatasets toLowerCase (client_get net) query lim c =
                (Inr r, \<lparr>issued = issued c @ [list_request], world = w\<rparr>)
             \<and> items r = take (nat lim) (filter (dataset_matches toLowerCase query) (items page))
             \<and> int (length (items r)) \<le> lim"
  using assms by (simp add: searchDatasets_Inr slice0_nonneg)

lemma sample_matches:
  "filter (dataset_matches toLowerCase_ascii ''TRADE'') (items sample_page) =
     [sample_dataset ''trade'' ''Trade Balance'' ''UK trade in goods'' None,
      sample_dataset ''regional-gdp'' ''Regional GDP'' ''Output and trade by region'' None]"
  by (simp add: matches_dataset_matches [symmetric] matches_def sample_page_def sample_dataset_def
      toLowerCase_ascii_def toLowerCase_char_def)

lemma sample_served:
  "served [(''/datasets'', Inr sample_page)] list_request (world fresh) = (Inr sample_page, ())"
  by (simp add: served_def list_request_def)

text \<open>C6 on a page of three datasets, two of which match \<open>TRADE\<close>, with limit 1.\<close>

theorem searchDatasets_result_witness:
  "\<exists>r. searchDatasets toLowerCase_ascii (client_get (served [(''/datasets'', Inr sample_page)])) ''TRADE'' 1 fresh =
          (Inr r, \<lparr>issued = [list_request], world = ()\<rparr>)
       \<and> items r = [sample_dataset ''trade'' ''Trade Balance'' ''UK trade in goods'' None]
       \<and> int (length (items r)) \<le> 1"
  using searchDatasets_result [of "served [(''/datasets'', Inr sample_page)]" fresh sample_page "()" 1
      toLowerCase_ascii "''TRADE''"]
  by (simp add: served_def fresh_def list_request_def sample_matches)

text \<open>
  C6 as it is worded, for every limit, fails at limit \<open>-1\<close>: \<open>slice(0, -1)\<close> drops
  the last match and keeps the others, so one item is returned, more than the limit.
\<close>

theorem searchDatasets_negative_limit:
  "fst (searchDatasets toLowerCase_ascii (client_get (served [(''/datasets'', Inr sample_page)])) ''TRADE'' (- 1) fresh) =
     Inr \<lparr>count = 1, items = [sample_dataset ''trade'' ''Trade Balance'' ''UK trade in goods'' None],
          limit = - 1, offset = 0, total_count = 1\<rparr>
   \<and> \<not> int (length (items (projr (fst (searchDatasets toLowerCase_ascii
            (client_get (served [(''/datasets'', Inr sample_page)])) ''TRADE'' (- 1) fresh))))) \<le> - 1"
  using sample_served
    searchDatasets_Inr [of "served [(''/datasets'', Inr sample_page)]" fresh sample_page "()"
      toLowerCase_ascii "''TRADE''" "- 1"]
  by (simp add: sample_matches slice0_def)

text \<open>
  C7. For a limit that is not negative, every page \<open>searchDatasets\<close> resolves with
  satisfies the invariant of a dataset page: no more items than the limit, no more items
  than \<open>count\<close>, and \<open>count\<close> at most \<open>total_count\<close>.
\<close>

theorem searchDatasets_invariant:
  assumes "0 \<le> lim" and "searchDatasets toLowerCase (client_get net) query lim c = (Inr r, c')"
  shows "DatasetPage_invariant r"
proof -
  from assms(2) obtain page :: ONSDatasetList
    where "items r = slice0 (filter (dataset_matches toLowerCase query) (items page)) lim"
    and "limit r = lim" and "count r = int (length (items r))" and "total_count r = int (length (items r))"
    by (rule searchDatasets_shape)
  with assms(1) show ?thesis
    using length_slice0_le [of lim "filter (dataset_matches toLowerCase query) (items page)"]
    by (simp add: DatasetPage_invariant_def)
qed

text \<open>C7 on the page returned for \<open>TRADE\<close> with limit 1.\<close>

theorem searchDatasets_invariant_witness:
  "DatasetPage_invariant
     \<lparr>count = 1, items = [sample_dataset ''trade'' ''Trade Balance'' ''UK trade in goods'' None],
      limit = 1, offset = 0, total_count = 1\<rparr>"
proof -
  from sample_served
    searchDatasets_Inr [of "served [(''/datasets'', Inr sample_page)]" fresh sample_page "()"
      toLowerCase_ascii "''TRADE''" 1]
  have "searchDatasets toLowerCase_ascii (client_get (served [(''/datasets'', Inr sample_page)])) ''TRADE'' 1 fresh =
          (Inr \<lparr>count = 1, items = [sample_dataset ''trade'' ''Trade Balance'' ''UK trade in goods'' None],
                limit = 1, offset = 0, total_count = 1\<rparr>,
           \<lparr>issued = [list_request], world = ()\<rparr>)"
    by (simp add: sample_matches slice0_def fresh_def)
  then show ?thesis by (rule searchDatasets_invariant [rotated]) simp
qed



subsection \<open>healthCheck and getDatasetDimensions\<close>

text \<open>
  C8. \<open>healthCheck\<close> always resolves, never rejects: after its one request for
  \<open>/datasets?limit=1\<close> it returns true when the request succeeded and false when it
  failed, whatever the failure.
\<close>

theorem healthCheck_boolean:
  "healthCheck (client_get net) c =
     (Inr (\<not> isl (fst (net \<lparr>req_url = ''/datasets?limit=1'', req_params = []\<rparr> (world c)))),
      \<lparr>issued = issued c @ [\<lparr>req_url = ''/datasets?limit=1'', req_params = []\<rparr>],
       world = snd (net \<lparr>req_url = ''/datasets?limit=1'', req_params = []\<rparr> (world c))\<rparr>)"
proof (cases rule: client_get_outcome [of net "\<lparr>req_url = ''/datasets?limit=1'', req_params = []\<rparr>" c])
  case (ok d w)
  then show ?thesis by (simp add: healthCheck_def client_get_Inr)
next
  case (failed e w)
  then show ?thesis by (simp add: healthCheck_def client_get_Inl)
qed

text \<open>C8 on a server that answers, one that answers 404, one that answers 500, and none.\<close>

theorem healthCheck_boolean_witness:
  "fst (healthCheck (client_get (served [(''/datasets?limit=1'', Inr sample_page)])) fresh) = Inr True
   \<and> fst (healthCheck (client_get (served [(''/datasets?limit=1'', Inl (axios_error 404 None) :: js_error + ONSDatasetList)])) fresh) = Inr False
   \<and> fst (healthCheck (client_get (served [(''/datasets?limit=1'', Inl (axios_error 500 None) :: js_error + ONSDatasetList)])) fresh) = Inr False
   \<and> fst (healthCheck (client_get (served ([] :: (string \<times> (js_error + ONSDatasetList)) list))) fresh) = Inr False"
  using healthCheck_boolean [of "served [(''/datasets?limit=1'', Inr sample_page)]" fresh]
    healthCheck_boolean [of "served [(''/datasets?limit=1'', Inl (axios_error 404 None) :: js_error + ONSDatasetList)]" fresh]
    healthCheck_boolean [of "served [(''/datasets?limit=1'', Inl (axios_error 500 None) :: js_error + ONSDatasetList)]" fresh]
    healthCheck_boolean [of "served ([] :: (string \<times> (js_error + ONSDatasetList)) list)" fresh]
  by (simp add: served_def)

text \<open>
  C9. When the dataset is fetched, \<open>getDatasetDimensions\<close> resolves with the empty
  list if the dataset has no \<open>dimensions\<close> field, and with the list of the field as it
  is otherwise.
\<close>

theorem getDatasetDimensions_default:
  assumes "net \<lparr>req_url = ''/datasets/'' @ datasetId, req_params = []\<rparr> (world c) = (Inr dataset, w)"
  shows "(dimensions dataset = None \<longrightarrow> fst (getDatasetDimensions (client_get net) datasetId c) = Inr [])
       \<and> (\<forall>ds. dimensions dataset = Some ds \<longrightarrow>
             fst (getDatasetDimensions (client_get net) datasetId c) = Inr ds)"
  using assms by (simp add: getDatasetDimensions_def getDataset_def client_get_Inr)

text \<open>C9 on a dataset without dimensions and on one with two.\<close>

theorem getDatasetDimensions_default_witness:
  "fst (getDatasetDimensions
          (client_get (served [(''/datasets/cpih01'', Inr (sample_dataset ''cpih01'' ''CPI Index'' ''Consumer prices'' None))]))
          ''cpih01'' fresh) = Inr []
   \<and> fst (getDatasetDimensions
          (client_get (served [(''/datasets/trade'', Inr (sample_dataset ''trade'' ''Trade Balance'' ''UK trade in goods''
                                   (Some [sample_dimension ''time'', sample_dimension ''geography''])))]))
          ''trade'' fresh) = Inr [sample_dimension ''time'', sample_dimension ''geography'']"
  using getDatasetDimensions_default
      [of "served [(''/datasets/cpih01'', Inr (sample_dataset ''cpih01'' ''CPI Index'' ''Consumer prices'' None))]"
          "''cpih01''" fresh "sample_dataset ''cpih01'' ''CPI Index'' ''Consumer prices'' None" "()"]
    getDatasetDimensions_default
      [of "served [(''/datasets/trade'', Inr (sample_dataset ''trade'' ''Trade Balance'' ''UK trade in goods''
                                   (Some [sample_dimension ''time'', sample_dimension ''geography''])))]"
          "''trade''" fresh "sample_dataset ''trade'' ''Trade Balance'' ''UK trade in goods''
                                   (Some [sample_dimension ''time'', sample_dimension ''geography''])" "()"]
  by (simp add: served_def sample_dataset_def)

lemma getDatasetDimensions_failure:
  assumes "net \<lparr>req_url = ''/datasets/'' @ datasetId, req_params = []\<rparr> (world c) = (Inl e, w)"
  shows "fst (getDatasetDimensions (client_get net) datasetId c) = Inl (interceptor e)"
  using assms by (simp add: getDatasetDimensions_def getDataset_def client_get_Inl)

end
